theory Spec2Isabelle
  imports Complex_Main "HOL-Library.Word"
begin

section \<open>JavaScript values used by the bridge\<close>

text \<open>
  Strings are lists of code units; a \<^typ>\<open>char\<close> holds the code units 0 to 255, so the
  degree sign of the discovery payload is \<open>CHR 0xB0\<close> and the no-break space is
  \<open>CHR 0xA0\<close>. Code units above 255 are outside the model.

  A JavaScript number is either \<open>NaN\<close> or its mathematical value. The registers, the
  codes of the enumerated controls and the results of \<open>parseInt\<close> are integers, which
  doubles hold exactly up to \<open>2 ^ 53\<close>. A product with a decimal scale factor
  (\<open>raw * 0.1\<close>) is kept as the exact rational; the JavaScript engine rounds it to the
  nearest double, and no statement below depends on the rounding. Negative zero and the
  infinities are not modelled.
\<close>

datatype js_number = NaN | Number rat

definition isNaN :: "js_number \<Rightarrow> bool" where
  "isNaN x = (x = NaN)"

definition num :: "int \<Rightarrow> js_number" where
  "num i = Number (of_int i)"

text \<open>\<open>raw * 0.1\<close> and its siblings: an integer times a decimal literal.\<close>

definition times :: "int \<Rightarrow> rat \<Rightarrow> js_number" where
  "times raw scale = Number (of_int raw * scale)"

subsection \<open>String.prototype.split and Array.prototype.join\<close>

text \<open>\<open>s.split(sep)\<close> with a one-character separator: the empty string gives one empty
  segment, and adjacent separators give empty segments between them.\<close>

fun js_split :: "char \<Rightarrow> string \<Rightarrow> string list" where
  "js_split sep [] = [[]]"
| "js_split sep (c # cs) =
     (if c = sep then [] # js_split sep cs
      else (case js_split sep cs of
              [] \<Rightarrow> [[c]]
            | s # ss \<Rightarrow> (c # s) # ss))"

fun join :: "string \<Rightarrow> string list \<Rightarrow> string" where
  "join sep [] = []"
| "join sep [x] = x"
| "join sep (x # y # ys) = x @ sep @ join sep (y # ys)"

subsection \<open>parseInt\<close>

text \<open>
  \<open>parseInt(string, radix)\<close> as ECMAScript defines it: leading white space is dropped,
  then an optional sign is read; with no radix (or radix 16) a prefix \<open>0x\<close> or \<open>0X\<close> is
  dropped and selects radix 16, and no radix otherwise means 10; the longest prefix of
  digits of the radix is the result, and an empty one gives \<open>NaN\<close>. Whatever follows the
  digits is ignored. The radix is \<open>None\<close> where the source passes none.

  The result here is the mathematical integer the digits denote. JavaScript returns the
  Number for it: the same integer up to \<open>2 ^ 53\<close> in magnitude, the nearest double or an
  infinity beyond. Every statement below about the number \<open>parseInt\<close> returns is
  either about the digits 0, 1, 2 and 80 or carries the bound \<open>2 ^ 53\<close>; whether the
  result is \<open>NaN\<close> does not depend on the magnitude.
\<close>

definition isWhiteSpace :: "char \<Rightarrow> bool" where
  "isWhiteSpace c = (c \<in> set [CHR 0x09, CHR 0x0A, CHR 0x0B, CHR 0x0C, CHR 0x0D, CHR 0x20, CHR 0xA0])"

definition digitValue :: "char \<Rightarrow> nat option" where
  "digitValue c =
     (let n = of_char c :: nat in
      if 48 \<le> n \<and> n \<le> 57 then Some (n - 48)
      else if 97 \<le> n \<and> n \<le> 122 then Some (n - 87)
      else if 65 \<le> n \<and> n \<le> 90 then Some (n - 55)
      else None)"

definition isDigit :: "nat \<Rightarrow> char \<Rightarrow> bool" where
  "isDigit R c = (case digitValue c of None \<Rightarrow> False | Some d \<Rightarrow> d < R)"

definition digitsValue :: "nat \<Rightarrow> string \<Rightarrow> nat" where
  "digitsValue R Z =
     foldl (\<lambda>acc c. acc * R + (case digitValue c of None \<Rightarrow> 0 | Some d \<Rightarrow> d)) 0 Z"

definition parseInt :: "string \<Rightarrow> nat option \<Rightarrow> js_number" where
  "parseInt inputString radix =
     (let S = dropWhile isWhiteSpace inputString;
          sign = (if take 1 S = ''-'' then -1 else 1 :: int);
          S = (if take 1 S = ''+'' \<or> take 1 S = ''-'' then drop 1 S else S);
          R = (case radix of None \<Rightarrow> 0 | Some r \<Rightarrow> r)
      in if R \<noteq> 0 \<and> (R < 2 \<or> 36 < R) then NaN
         else
           let stripPrefix = (R = 0 \<or> R = 16);
               R = (if R = 0 then 10 else R);
               hex = (stripPrefix \<and> (take 2 S = ''0x'' \<or> take 2 S = ''0X''));
               S = (if hex then drop 2 S else S);
               R = (if hex then 16 else R);
               Z = takeWhile (isDigit R) S
           in if Z = [] then NaN else num (sign * int (digitsValue R Z)))"

subsection \<open>Numbers as property keys\<close>

text \<open>
  \<open>map[v]\<close> with a number \<open>v\<close> looks up the property named \<open>String(v)\<close>. For an
  integer below \<open>10 ^ 21\<close> in magnitude that is its decimal numeral, with a minus sign
  when negative, and for \<open>NaN\<close> the text \<open>NaN\<close>. The text of any other number has a
  decimal point or an exponent; it is not produced here (\<open>None\<close>), and no table of this
  program has such a key.
\<close>

fun digits :: "nat \<Rightarrow> string" where
  "digits n =
     (if n < 10 then [''0123456789'' ! n]
      else digits (n div 10) @ [''0123456789'' ! (n mod 10)])"

definition ToString_int :: "int \<Rightarrow> string" where
  "ToString_int i = (if i < 0 then CHR ''-'' # digits (nat (- i)) else digits (nat i))"

definition ToPropertyKey :: "js_number \<Rightarrow> string option" where
  "ToPropertyKey v =
     (case v of
        NaN \<Rightarrow> Some ''NaN''
      | Number r \<Rightarrow>
          if r = of_int \<lfloor>r\<rfloor> \<and> \<bar>r\<bar> < 10 ^ 21 then Some (ToString_int \<lfloor>r\<rfloor>) else None)"

subsection \<open>Objects and inherited properties\<close>

text \<open>
  The tables are object literals, so \<open>table[key]\<close> finds the table's own entries and,
  for the names every object inherits from \<open>Object.prototype\<close>, an inherited value that
  is truthy and has none of the fields \<open>register\<close>, \<open>type\<close> and \<open>map\<close>.
\<close>

datatype 'a property = Undefined | Own 'a | Inherited

definition OBJECT_PROTOTYPE :: "string list" where
  "OBJECT_PROTOTYPE =
     [''constructor'', ''__defineGetter__'', ''__defineSetter__'', ''hasOwnProperty'',
      ''__lookupGetter__'', ''__lookupSetter__'', ''isPrototypeOf'',
      ''propertyIsEnumerable'', ''toString'', ''valueOf'', ''__proto__'',
      ''toLocaleString'']"

definition get_property :: "(string \<times> 'a) list \<Rightarrow> string \<Rightarrow> 'a property" where
  "get_property table k =
     (case map_of table k of
        Some x \<Rightarrow> Own x
      | None \<Rightarrow> if k \<in> set OBJECT_PROTOTYPE then Inherited else Undefined)"

section \<open>Logger calls and the other effects\<close>

text \<open>
  What the code does to the outside is recorded as a list of effects, in the order the
  code performs them. A call of \<open>Logger.info\<close>, \<open>Logger.warn\<close> or \<open>Logger.error\<close> is
  recorded with its level and the pieces of its message: text, and the numbers and error
  objects that the source interpolates or passes as further arguments (their conversion
  to text is not modelled). Whether the line is printed depends on the configured level
  and is the Logger's business.
\<close>

datatype level = Info | Warn | Error

datatype error =
    NotConnected          \<comment> \<open>\<open>new Error("Not connected")\<close> of \<open>Poller.writeRegister\<close>\<close>
  | RangeError            \<comment> \<open>a Buffer read outside the buffer\<close>
  | TypeError             \<comment> \<open>a property read on \<open>undefined\<close>\<close>
  | TransportError string \<comment> \<open>a rejection of the Modbus client, with its message\<close>

datatype frag = Txt string | Val js_number | Err error

section \<open>Poller\<close>

subsection \<open>The control tables\<close>

datatype control_type = select | number

text \<open>An entry of \<open>Poller.CONTROLS\<close>. The \<open>map\<close> of an entry lists its keys in the order
  of \<open>Object.keys\<close> (integer keys ascending), as the strings they are; an entry of type
  \<open>number\<close> has no \<open>map\<close>.\<close>

record control =
  register :: nat
  type :: control_type
  map_tbl :: "(string \<times> string) list option"

definition CONTROLS :: "(string \<times> control) list" where
  "CONTROLS =
     [(''user_work_mode'',
         \<lparr>register = 43000, type = select,
          map_tbl = Some [(''0'', ''Manual''), (''1'', ''Anti-Feed''), (''2'', ''Trade'')]\<rparr>),
      (''force_mode'',
         \<lparr>register = 42010, type = select,
          map_tbl = Some [(''0'', ''Stop''), (''1'', ''Charge''), (''2'', ''Discharge'')]\<rparr>),
      (''backup_function'',
         \<lparr>register = 41200, type = select,
          map_tbl = Some [(''0'', ''Enable''), (''1'', ''Disable'')]\<rparr>),
      (''set_charge_power'', \<lparr>register = 42020, type = number, map_tbl = None\<rparr>),
      (''set_discharge_power'', \<lparr>register = 42021, type = number, map_tbl = None\<rparr>),
      (''charge_to_soc'', \<lparr>register = 42011, type = number, map_tbl = None\<rparr>)]"

definition READ_ONLY_LOOKUPS :: "(string \<times> (string \<times> string) list) list" where
  "READ_ONLY_LOOKUPS =
     [(''inverter_state'',
         [(''0'', ''Sleep''), (''1'', ''Standby''), (''2'', ''Charge''), (''3'', ''Discharge''),
          (''4'', ''Backup''), (''5'', ''OTA''), (''6'', ''Bypass'')])]"

text \<open>
  The two directions of the translation, as the bridge writes them inline:
  \<open>map[v]\<close> in \<open>handleData\<close>, and
  \<open>Object.keys(control.map).find(k => control.map[k] === label)\<close> followed by
  \<open>parseInt(intVal)\<close> in \<open>handleCommand\<close>.
\<close>

definition labelForCode :: "(string \<times> string) list \<Rightarrow> js_number \<Rightarrow> string option" where
  "labelForCode m v = (case ToPropertyKey v of None \<Rightarrow> None | Some k \<Rightarrow> map_of m k)"

definition findKey :: "(string \<times> string) list \<Rightarrow> string \<Rightarrow> string option" where
  "findKey m label = find (\<lambda>k. map_of m k = Some label) (map fst m)"


subsection \<open>Effects\<close>

text \<open>
  A telemetry snapshot is the \<open>data\<close> object of \<open>poll\<close>: its properties in the order
  they were assigned, which is the order \<open>Object.entries\<close> lists them.
\<close>

type_synonym snapshot = "(string \<times> js_number) list"

datatype json =
    JNull | JBool bool | JNum js_number | JStr string
  | JArr "json list" | JObj "(string \<times> json) list"

text \<open>What is published: the text of \<open>JSON.stringify\<close> of an object (kept as the object),
  a label, or the text of a number (kept as the number).\<close>

datatype message = Stringify json | Label string | NumberText js_number

datatype effect =
    Logger level "frag list"
  | ClientClose
  | ClientConnectTCP string nat
  | ClientSetID nat
  | ClientSetTimeout nat
  | ClientWriteRegister nat js_number
  | EmitData snapshot
  | SetTimeout js_number
  | WriteToDevice nat js_number
  | Subscribe string
  | Publish string message bool

subsection \<open>Reading a block\<close>

text \<open>
  The Modbus client is seen through its answers: \<open>readHoldingRegisters client start length\<close>
  is the \<open>buffer\<close> of the response to that request, or the error the promise rejects
  with. Within one poll cycle every block is requested once, so the answers of a cycle
  are a function of the request.
\<close>

type_synonym buffer = "8 word list"

type_synonym modbus = "nat \<Rightarrow> nat \<Rightarrow> error + buffer"

definition andThen :: "error + 'a \<Rightarrow> ('a \<Rightarrow> error + 'b) \<Rightarrow> error + 'b" where
  "andThen m f = (case m of Inl e \<Rightarrow> Inl e | Inr x \<Rightarrow> f x)"

definition readBlock :: "modbus \<Rightarrow> nat \<Rightarrow> nat \<Rightarrow> error + buffer" where
  "readBlock client start len = andThen (client start len) (\<lambda>res_buffer. Inr res_buffer)"

text \<open>Node's Buffer reads: big-endian, and a \<open>RangeError\<close> when a byte of the value lies
  outside the buffer.\<close>

definition readUInt16BE :: "buffer \<Rightarrow> nat \<Rightarrow> error + int" where
  "readUInt16BE buf off =
     (if off + 2 \<le> length buf
      then Inr (uint (buf ! off) * 2 ^ 8 + uint (buf ! (off + 1)))
      else Inl RangeError)"

definition readInt16BE :: "buffer \<Rightarrow> nat \<Rightarrow> error + int" where
  "readInt16BE buf off =
     andThen (readUInt16BE buf off)
       (\<lambda>val. Inr (if 2 ^ 15 \<le> val then val - 2 ^ 16 else val))"

definition readUInt32BE :: "buffer \<Rightarrow> nat \<Rightarrow> error + int" where
  "readUInt32BE buf off =
     (if off + 4 \<le> length buf
      then Inr (uint (buf ! off) * 2 ^ 24 + uint (buf ! (off + 1)) * 2 ^ 16 +
                uint (buf ! (off + 2)) * 2 ^ 8 + uint (buf ! (off + 3)))
      else Inl RangeError)"

definition readInt32BE :: "buffer \<Rightarrow> nat \<Rightarrow> error + int" where
  "readInt32BE buf off =
     andThen (readUInt32BE buf off)
       (\<lambda>val. Inr (if 2 ^ 31 \<le> val then val - 2 ^ 32 else val))"

subsection \<open>One poll cycle\<close>

text \<open>
  \<open>Poller.poll\<close>: the reads and the decodes in the order of the source; the first one
  that fails ends the cycle with its error. The source fills \<open>data\<close> field by field and
  hands it to \<open>emitData\<close> as its last statement; nothing reads \<open>data\<close> before, so the
  object is built here at the end, with the fields in the order of the assignments.
  The result \<open>Inr data\<close> is the call \<open>this.emitData(data)\<close>; the emit itself, and a
  listener that throws out of it, are in \<open>pollingLoop\<close>, whose \<open>try\<close> encloses the
  whole of \<open>poll\<close>.
\<close>

definition poll :: "modbus \<Rightarrow> error + snapshot" where
  "poll client =
     andThen (readBlock client 30001 6) (\<lambda>power.
     andThen (readInt16BE power 0) (\<lambda>battery_power.
     andThen (readInt16BE power 10) (\<lambda>ac_power.
     andThen (readBlock client 30100 2) (\<lambda>bat.
     andThen (readUInt16BE bat 0) (\<lambda>battery_voltage.
     andThen (readInt16BE bat 2) (\<lambda>battery_current.
     andThen (readBlock client 32105 1) (\<lambda>cap.
     andThen (readUInt16BE cap 0) (\<lambda>battery_design_capacity.
     andThen (readBlock client 32200 5) (\<lambda>ac.
     andThen (readUInt16BE ac 0) (\<lambda>ac_voltage.
     andThen (readInt16BE ac 8) (\<lambda>ac_frequency.
     andThen (readBlock client 37004 5) (\<lambda>soc.
     andThen (readInt16BE soc 0) (\<lambda>ac_current.
     andThen (readUInt16BE soc 2) (\<lambda>soc_soc.
     andThen (readUInt16BE soc 6) (\<lambda>max_cell_voltage.
     andThen (readUInt16BE soc 8) (\<lambda>min_cell_voltage.
     andThen (readBlock client 33000 4) (\<lambda>nrg.
     andThen (readUInt32BE nrg 0) (\<lambda>total_energy_in.
     andThen (readInt32BE nrg 4) (\<lambda>total_energy_out.
     andThen (readBlock client 35000 3) (\<lambda>temp.
     andThen (readInt16BE temp 0) (\<lambda>internal_temperature.
     andThen (readInt16BE temp 2) (\<lambda>internal_mos1_temperature.
     andThen (readInt16BE temp 4) (\<lambda>internal_mos2_temperature.
     andThen (readBlock client 35010 2) (\<lambda>temp2.
     andThen (readInt16BE temp2 0) (\<lambda>max_cell_temperature.
     andThen (readInt16BE temp2 0) (\<lambda>min_cell_temperature.
     andThen (readBlock client 35100 1) (\<lambda>inv.
     andThen (readUInt16BE inv 0) (\<lambda>inverter_state.
     andThen (readBlock client 41200 1) (\<lambda>bkp.
     andThen (readUInt16BE bkp 0) (\<lambda>backup_function.
     andThen (readBlock client 42010 2) (\<lambda>ctrl1.
     andThen (readUInt16BE ctrl1 0) (\<lambda>force_mode.
     andThen (readUInt16BE ctrl1 2) (\<lambda>charge_to_soc.
     andThen (readBlock client 42020 2) (\<lambda>ctrl2.
     andThen (readUInt16BE ctrl2 0) (\<lambda>set_charge_power.
     andThen (readUInt16BE ctrl2 2) (\<lambda>set_discharge_power.
     andThen (readBlock client 43000 1) (\<lambda>uwm.
     andThen (readUInt16BE uwm 0) (\<lambda>user_work_mode.
     Inr [(''battery_power'', num battery_power),
          (''ac_power'', num ac_power),
          (''battery_voltage'', times battery_voltage (1 / 100)),
          (''battery_current'', times battery_current (1 / 10)),
          (''battery_design_capacity'', times battery_design_capacity (1 / 1000)),
          (''ac_voltage'', times ac_voltage (1 / 10)),
          (''ac_frequency'', times ac_frequency (1 / 10)),
          (''ac_current'', times ac_current (4 / 1000)),
          (''soc'', num soc_soc),
          (''max_cell_voltage'', times max_cell_voltage (1 / 1000)),
          (''min_cell_voltage'', times min_cell_voltage (1 / 1000)),
          (''total_energy_in'', times total_energy_in (1 / 100)),
          (''total_energy_out'', times total_energy_out (1 / 100)),
          (''internal_temperature'', times internal_temperature (1 / 10)),
          (''internal_mos1_temperature'', times internal_mos1_temperature (1 / 10)),
          (''internal_mos2_temperature'', times internal_mos2_temperature (1 / 10)),
          (''max_cell_temperature'', times max_cell_temperature (1 / 10)),
          (''min_cell_temperature'', times min_cell_temperature (1 / 10)),
          (''inverter_state'', num inverter_state),
          (''backup_function'', num backup_function),
          (''force_mode'', num force_mode),
          (''charge_to_soc'', num charge_to_soc),
          (''set_charge_power'', num set_charge_power),
          (''set_discharge_power'', num set_discharge_power),
          (''user_work_mode'', num user_work_mode)]
     ))))))))))))))))))))))))))))))))))))))"

subsection \<open>The connection and the polling loop\<close>

record poller =
  connected :: bool

text \<open>The constants \<open>initialize\<close> reads from the environment. \<open>interval\<close> is
  \<open>Number(process.env.POLL_INTERVAL) || 5000\<close>: the default stands in for \<open>NaN\<close> and 0.\<close>

record settings =
  POLL_IP :: string
  port :: nat
  slaveId :: nat
  interval :: rat

definition interval_of :: "js_number \<Rightarrow> rat" where
  "interval_of n = (case n of NaN \<Rightarrow> 5000 | Number r \<Rightarrow> if r = 0 then 5000 else r)"

text \<open>What one tick of the loop meets outside the program: whether the client's socket
  is open when \<open>connect\<close> runs, how \<open>connectTCP\<close> ends if it is called (\<open>None\<close>: it
  resolves), the device's answers, how the listeners registered with \<open>onData\<close> end
  when they are handed a snapshot (\<open>None\<close>: all return; \<open>Some e\<close>: one throws \<open>e\<close>, which
  \<open>emit\<close> passes on to its caller), and \<open>Date.now()\<close> when the next tick is scheduled.\<close>

record world =
  isOpen :: bool
  connectTCP :: "error option"
  readHoldingRegisters :: modbus
  listeners :: "snapshot \<Rightarrow> error option"
  now :: int

definition connect :: "settings \<Rightarrow> world \<Rightarrow> poller \<Rightarrow> poller \<times> effect list" where
  "connect cfg w this =
     (case connectTCP w of
        None \<Rightarrow>
          (this\<lparr>connected := True\<rparr>,
           (if isOpen w then [ClientClose] else []) @
           [ClientConnectTCP (POLL_IP cfg) (port cfg), ClientSetID (slaveId cfg),
            ClientSetTimeout 2000, Logger Info [Txt ''Modbus connected'']])
      | Some e \<Rightarrow>
          (this\<lparr>connected := False\<rparr>,
           (if isOpen w then [ClientClose] else []) @
           [ClientConnectTCP (POLL_IP cfg) (port cfg),
            Logger Error [Txt ''Modbus connection failed:'', Err e]]))"

text \<open>JavaScript's \<open>%\<close>: the remainder has the sign of the dividend, and a zero divisor
  gives \<open>NaN\<close>.\<close>

definition trunc :: "rat \<Rightarrow> int" where
  "trunc x = (if x < 0 then - \<lfloor>- x\<rfloor> else \<lfloor>x\<rfloor>)"

definition js_rem :: "rat \<Rightarrow> rat \<Rightarrow> js_number" where
  "js_rem a b = (if b = 0 then NaN else Number (a - b * of_int (trunc (a / b))))"

definition js_minus :: "rat \<Rightarrow> js_number \<Rightarrow> js_number" where
  "js_minus a x = (case x of NaN \<Rightarrow> NaN | Number b \<Rightarrow> Number (a - b))"

definition pollingLoop :: "settings \<Rightarrow> world \<Rightarrow> poller \<Rightarrow> poller \<times> effect list" where
  "pollingLoop cfg w this =
     (let (this, es1) = (if \<not> connected this then connect cfg w this else (this, []));
          (this, es2) =
            (if connected this then
               (case poll (readHoldingRegisters w) of
                  Inr data \<Rightarrow>
                    (case listeners w data of
                       None \<Rightarrow> (this, [EmitData data])
                     | Some err \<Rightarrow>
                         (this\<lparr>connected := False\<rparr>,
                          [EmitData data,
                           Logger Warn [Txt ''Error during poll cycle'', Err err]]))
                | Inl err \<Rightarrow>
                    (this\<lparr>connected := False\<rparr>,
                     [Logger Warn [Txt ''Error during poll cycle'', Err err]]))
             else (this, []))
      in (this,
          es1 @ es2 @
          [SetTimeout (js_minus (interval cfg) (js_rem (of_int (now w)) (interval cfg)))]))"

subsection \<open>Writing a register\<close>

text \<open>\<open>write\<close> is how the client's \<open>writeRegister\<close> ends if it is called: \<open>None\<close> when it
  resolves, the error when it rejects.\<close>

definition writeRegister ::
  "(nat \<Rightarrow> js_number \<Rightarrow> error option) \<Rightarrow> poller \<Rightarrow> nat \<Rightarrow> js_number \<Rightarrow> (error + unit) \<times> effect list"
where
  "writeRegister write this address v =
     (if \<not> connected this then (Inl NotConnected, [])
      else
        (case write address v of
           None \<Rightarrow>
             (Inr (),
              [Logger Info [Txt ''Writing '', Val v, Txt '' to register '', Val (num (int address))],
               ClientWriteRegister address v])
         | Some e \<Rightarrow>
             (Inl e,
              [Logger Info [Txt ''Writing '', Val v, Txt '' to register '', Val (num (int address))],
               ClientWriteRegister address v])))"

section \<open>MqttClient\<close>

text \<open>
  The source file holds two versions of the class. The later one, which takes its tables
  from \<open>Poller.CONTROLS\<close> and \<open>Poller.READ_ONLY_LOOKUPS\<close>, is the one modelled; the
  earlier one carries the same entries in tables of its own, and the two agree on the
  connect handler. The field \<open>identifier\<close> of the class is \<open>device_identifier\<close> here.
\<close>

record mqtt_client =
  device_identifier :: string
  autoconfTimestamp :: int

definition TOPIC_PREFIX :: string where
  "TOPIC_PREFIX = ''marstek2mqtt''"

text \<open>The constructor: \<open>process.env.IDENTIFIER || "One"\<close>, and the clock at 0.\<close>

definition new_MqttClient :: "string option \<Rightarrow> mqtt_client" where
  "new_MqttClient IDENTIFIER =
     \<lparr>device_identifier = (case IDENTIFIER of None \<Rightarrow> ''One'' | Some s \<Rightarrow> if s = [] then ''One'' else s),
      autoconfTimestamp = 0\<rparr>"

subsection \<open>The connect handler\<close>

text \<open>The handler \<open>initialize\<close> registers for the client's \<open>connect\<close> event, with the
  outcome the broker reports to the callback of \<open>subscribe\<close> (\<open>None\<close>: no error).\<close>

definition commandTopic :: "mqtt_client \<Rightarrow> string" where
  "commandTopic this = TOPIC_PREFIX @ ''/'' @ device_identifier this @ ''/set/#''"

definition on_connect :: "mqtt_client \<Rightarrow> error option \<Rightarrow> effect list" where
  "on_connect this err =
     [Logger Info [Txt ''Connected to MQTT broker''],
      Subscribe (commandTopic this),
      (case err of
         Some e \<Rightarrow> Logger Error [Txt ''Failed to subscribe to commands'', Err e]
       | None \<Rightarrow> Logger Info [Txt (''Subscribed to commands: '' @ commandTopic this)])]"

subsection \<open>Commands\<close>

text \<open>
  \<open>handleCommand(topic, message)\<close>, with \<open>msg\<close> the text \<open>message.toString()\<close>. The
  result lists the calls of the Logger and of \<open>this.writeToDevice\<close>, in order. The
  \<open>TypeError\<close> of \<open>Object.keys(undefined)\<close> is caught by the handler's own \<open>catch\<close>.
\<close>

definition handleCommand :: "string \<Rightarrow> string \<Rightarrow> effect list" where
  "handleCommand topic msg =
     (let parts = js_split CHR ''/'' topic in
      if length parts \<noteq> 4 \<or> parts ! 2 \<noteq> ''set'' then []
      else
        let key = parts ! 3 in
        Logger Info [Txt (''Received command for '' @ key @ '': '' @ msg)] #
        (case get_property CONTROLS key of
           Undefined \<Rightarrow> [Logger Warn [Txt (''Unknown control key: '' @ key)]]
         | Inherited \<Rightarrow> []
         | Own control \<Rightarrow>
             (case type control of
                select \<Rightarrow>
                  (case map_tbl control of
                     None \<Rightarrow> [Logger Error [Txt ''Error processing command'', Err TypeError]]
                   | Some m \<Rightarrow>
                       (case findKey m msg of
                          Some intVal \<Rightarrow> [WriteToDevice (register control) (parseInt intVal None)]
                        | None \<Rightarrow>
                            [Logger Warn
                               [Txt (''Invalid option '' @ [CHR 0x27] @ msg @ [CHR 0x27] @ '' for '' @ key @
                                     ''. Expected: '' @ join '', '' (map snd m))]]))
              | number \<Rightarrow>
                  (let intVal = parseInt msg (Some 10) in
                   if isNaN intVal
                   then [Logger Warn
                           [Txt (''Invalid number '' @ [CHR 0x27] @ msg @ [CHR 0x27] @ '' for '' @ key)]]
                   else [WriteToDevice (register control) intVal]))))"

text \<open>\<open>writeToDevice(register, v)\<close>: the Poller's write, run to its end, then the line
  of the \<open>then\<close> or of the \<open>catch\<close>.\<close>

definition writeToDevice ::
  "(nat \<Rightarrow> js_number \<Rightarrow> error option) \<Rightarrow> poller \<Rightarrow> nat \<Rightarrow> js_number \<Rightarrow> effect list"
where
  "writeToDevice write p reg v =
     (case writeRegister write p reg v of
        (Inr u, es) \<Rightarrow>
          es @ [Logger Info [Txt ''Successfully wrote '', Val v, Txt '' to register '', Val (num (int reg))]]
      | (Inl err, es) \<Rightarrow>
          es @ [Logger Error [Txt ''Failed to write to register '', Val (num (int reg)), Err err]])"

subsection \<open>Discovery metadata\<close>

text \<open>\<open>Math.ceil((parseInt(process.env.POLL_INTERVAL) || 5000) / 1000) * 2 + 5\<close>; an
  unset variable is \<open>undefined\<close>, which \<open>parseInt\<close> reads as the text \<open>undefined\<close>.\<close>

definition expire_after :: "string option \<Rightarrow> int" where
  "expire_after POLL_INTERVAL =
     (let p = parseInt (case POLL_INTERVAL of None \<Rightarrow> ''undefined'' | Some s \<Rightarrow> s) None;
          n = (case p of NaN \<Rightarrow> 5000 | Number r \<Rightarrow> if r = 0 then 5000 else r)
      in \<lceil>n / 1000\<rceil> * 2 + 5)"

definition device :: "string \<Rightarrow> json" where
  "device ident =
     JObj [(''manufacturer'', JStr ''Marstek''),
           (''model'', JStr ''Venus''),
           (''name'', JStr (''Marstek Venus '' @ ident)),
           (''identifiers'', JArr [JStr (''marstek2mqtt_'' @ ident)])]"

text \<open>\<open>if (s) payload[k] = s\<close> for a string or \<open>null\<close>: \<open>null\<close> and the empty string are
  falsy.\<close>

definition if_truthy :: "string \<Rightarrow> string option \<Rightarrow> (string \<times> json) list" where
  "if_truthy k s = (case s of None \<Rightarrow> [] | Some x \<Rightarrow> if x = [] then [] else [(k, JStr x)])"

text \<open>
  \<open>makeConfig(key, name, unit, devClass, stateClass, type, options)\<close>: one retained
  publish. \<open>null\<close> is \<open>None\<close>; \<open>options\<close> is the object literal of the call, empty by
  default. All property names of the payload are distinct, so the assignments append.
\<close>

definition makeConfig ::
  "string option \<Rightarrow> string \<Rightarrow> string \<Rightarrow> string \<Rightarrow> string option \<Rightarrow> string option \<Rightarrow> string option \<Rightarrow>
   string \<Rightarrow> (string \<times> int) list \<Rightarrow> effect"
where
  "makeConfig POLL_INTERVAL ident key nm unit devClass stateClass ty opts =
     (let discoveryTopic = ''homeassistant/'' @ ty @ ''/marstek2mqtt_'' @ ident @ ''/'' @ key @ ''/config'';
          payload =
            [(''name'', JStr nm),
             (''unique_id'', JStr (''marstek2mqtt_'' @ ident @ ''_'' @ key)),
             (''state_topic'', JStr (TOPIC_PREFIX @ ''/'' @ ident @ ''/'' @ key)),
             (''device'', device ident),
             (''enabled_by_default'', JBool True)];
          payload =
            (if ty = ''sensor'' then
               payload @
               if_truthy ''unit_of_measurement'' unit @
               if_truthy ''device_class'' devClass @
               if_truthy ''state_class'' stateClass @
               [(''expire_after'', JNum (num (expire_after POLL_INTERVAL)))]
             else
               payload @
               [(''command_topic'', JStr (TOPIC_PREFIX @ ''/'' @ ident @ ''/set/'' @ key))] @
               (case map_of opts ''min'' of None \<Rightarrow> [] | Some x \<Rightarrow> [(''min'', JNum (num x))]) @
               (case map_of opts ''max'' of None \<Rightarrow> [] | Some x \<Rightarrow> [(''max'', JNum (num x))]) @
               (case map_of opts ''step'' of
                  None \<Rightarrow> []
                | Some x \<Rightarrow> if x = 0 then [] else [(''step'', JNum (num x))]) @
               (if ty = ''select'' then
                  (case get_property CONTROLS key of
                     Own control \<Rightarrow>
                       (case map_tbl control of
                          Some m \<Rightarrow> [(''options'', JArr (map (\<lambda>l. JStr l) (map snd m)))]
                        | None \<Rightarrow> [])
                   | Inherited \<Rightarrow> []
                   | Undefined \<Rightarrow> [])
                else []) @
               if_truthy ''unit_of_measurement'' unit)
      in Publish discoveryTopic (Stringify (JObj payload)) True)"

text \<open>The eighteen calls of \<open>makeConfig\<close>, in the order of the source.\<close>

definition autoconf :: "string option \<Rightarrow> string \<Rightarrow> effect list" where
  "autoconf POLL_INTERVAL ident =
     (let mk = makeConfig POLL_INTERVAL ident;
          measurement = Some ''measurement'';
          total_increasing = Some ''total_increasing''
      in
      [mk ''ac_power'' ''AC Power'' (Some ''W'') (Some ''power'') measurement ''sensor'' [],
       mk ''battery_power'' ''Battery Power'' (Some ''W'') (Some ''power'') measurement ''sensor'' [],
       mk ''battery_voltage'' ''Battery Voltage'' (Some ''V'') (Some ''voltage'') measurement ''sensor'' [],
       mk ''battery_current'' ''Battery Current'' (Some ''A'') (Some ''current'') measurement ''sensor'' [],
       mk ''ac_voltage'' ''AC Voltage'' (Some ''V'') (Some ''voltage'') measurement ''sensor'' [],
       mk ''ac_current'' ''AC Current'' (Some ''A'') (Some ''current'') measurement ''sensor'' [],
       mk ''ac_frequency'' ''AC Frequency'' (Some ''Hz'') (Some ''frequency'') measurement ''sensor'' [],
       mk ''soc'' ''State of Charge'' (Some ''%'') (Some ''battery'') measurement ''sensor'' [],
       mk ''total_energy_in'' ''Total Energy In'' (Some ''kWh'') (Some ''energy'') total_increasing ''sensor'' [],
       mk ''total_energy_out'' ''Total Energy Out'' (Some ''kWh'') (Some ''energy'') total_increasing ''sensor'' [],
       mk ''internal_temperature'' ''Internal Temp'' (Some (CHR 0xB0 # ''C'')) (Some ''temperature'')
          measurement ''sensor'' [],
       mk ''inverter_state'' ''Inverter State'' None None None ''sensor'' [],
       mk ''set_charge_power'' ''Set Charge Power'' (Some ''W'') None None ''number''
          [(''min'', 0), (''max'', 2500), (''step'', 50)],
       mk ''set_discharge_power'' ''Set Discharge Power'' (Some ''W'') None None ''number''
          [(''min'', 0), (''max'', 2500), (''step'', 50)],
       mk ''charge_to_soc'' ''Charge to SOC'' (Some ''%'') None None ''number''
          [(''min'', 10), (''max'', 100), (''step'', 1)],
       mk ''user_work_mode'' ''User Work Mode'' None None None ''select'' [],
       mk ''force_mode'' ''Force Mode'' None None None ''select'' [],
       mk ''backup_function'' ''Backup Function'' None None None ''select'' []])"

text \<open>
  \<open>ensureAutoconf(identifier)\<close>. \<open>Date.now()\<close> is read twice: \<open>now1\<close> in the guard and
  \<open>now2\<close> in the last statement, after the publishes.
\<close>

definition ensureAutoconf ::
  "string option \<Rightarrow> int \<Rightarrow> int \<Rightarrow> mqtt_client \<Rightarrow> string \<Rightarrow> mqtt_client \<times> effect list"
where
  "ensureAutoconf POLL_INTERVAL now1 now2 this ident =
     (if now1 - autoconfTimestamp this \<le> 4 * 60 * 60 * 1000 then (this, [])
      else (this\<lparr>autoconfTimestamp := now2\<rparr>, autoconf POLL_INTERVAL ident))"

subsection \<open>Telemetry\<close>

text \<open>
  The body of the \<open>forEach\<close> of \<open>handleData\<close> for one entry: the warning, if any, and
  the publish; or the \<open>TypeError\<close> of reading a property of an undefined \<open>map\<close>, which
  ends \<open>handleData\<close>.
\<close>

definition translate :: "string \<Rightarrow> (string \<times> string) list \<Rightarrow> js_number \<Rightarrow> string \<Rightarrow> message \<times> effect list" where
  "translate key m v which =
     (case labelForCode m v of
        Some l \<Rightarrow> (Label l, [])
      | None \<Rightarrow>
          (NumberText v,
           [Logger Warn [Txt ''Value '', Val v, Txt ('' for '' @ key @ '' not found in '' @ which @ '' map'')]]))"

definition publish_entry :: "string \<Rightarrow> string \<times> js_number \<Rightarrow> error + effect list" where
  "publish_entry baseTopic entry =
     (let key = fst entry; v = snd entry;
          selected =
            (case get_property CONTROLS key of
               Own control \<Rightarrow> if type control = select then Some (map_tbl control) else None
             | Inherited \<Rightarrow> None
             | Undefined \<Rightarrow> None);
          translated =
            (case selected of
               Some (Some m) \<Rightarrow> Inr (translate key m v ''control'')
             | Some None \<Rightarrow> Inl TypeError
             | None \<Rightarrow>
                 (case get_property READ_ONLY_LOOKUPS key of
                    Own m \<Rightarrow> Inr (translate key m v ''lookup'')
                  | Inherited \<Rightarrow> Inl TypeError
                  | Undefined \<Rightarrow> Inr (NumberText v, [])))
      in andThen translated
           (\<lambda>(payload, warnings). Inr (warnings @ [Publish (baseTopic @ ''/'' @ key) payload False])))"

fun publish_entries :: "string \<Rightarrow> snapshot \<Rightarrow> effect list \<times> error option" where
  "publish_entries baseTopic [] = ([], None)"
| "publish_entries baseTopic (entry # entries) =
     (case publish_entry baseTopic entry of
        Inl e \<Rightarrow> ([], Some e)
      | Inr es \<Rightarrow>
          (case publish_entries baseTopic entries of (es', r) \<Rightarrow> (es @ es', r)))"

text \<open>\<open>handleData(data)\<close>: the new state, the effects in order, and the error it throws,
  if any.\<close>

definition handleData ::
  "string option \<Rightarrow> int \<Rightarrow> int \<Rightarrow> mqtt_client \<Rightarrow> snapshot \<Rightarrow> mqtt_client \<times> effect list \<times> error option"
where
  "handleData POLL_INTERVAL now1 now2 this data =
     (case ensureAutoconf POLL_INTERVAL now1 now2 this (device_identifier this) of
        (this', es) \<Rightarrow>
          (case publish_entries (TOPIC_PREFIX @ ''/'' @ device_identifier this) data of
             (es', r) \<Rightarrow> (this', es @ es', r)))"

section \<open>A base-10 integer, in the words of the specification\<close>

text \<open>
  The specification has the payload of a numeric control parsed "as a base-10 integer".
  Read as the words stand, such a payload is an optional sign followed by one or more
  decimal digits and nothing else. This predicate is not part of the program; it is what
  \<open>parseInt\<close> is compared with.
\<close>

definition spec_base10_integer :: "string \<Rightarrow> bool" where
  "spec_base10_integer s =
     (let d = (if take 1 s = ''+'' \<or> take 1 s = ''-'' then drop 1 s else s)
      in d \<noteq> [] \<and> list_all (isDigit 10) d)"

section \<open>The read sequence and the example worlds\<close>

text \<open>
  The fixed read sequence of one poll cycle, for the statements about it: for each block
  its start address, its register count, and the number of bytes the decodes of that
  block reach. A block is in order when the client answers the request with a buffer of
  at least that many bytes. \<open>KEYS\<close> are the fields of a complete snapshot.
\<close>

definition READS :: "(nat \<times> nat \<times> nat) list" where
  "READS =
     [(30001, 6, 12), (30100, 2, 4), (32105, 1, 2), (32200, 5, 10), (37004, 5, 10),
      (33000, 4, 8), (35000, 3, 6), (35010, 2, 2), (35100, 1, 2), (41200, 1, 2),
      (42010, 2, 4), (42020, 2, 4), (43000, 1, 2)]"

definition block_ok :: "modbus \<Rightarrow> nat \<times> nat \<times> nat \<Rightarrow> bool" where
  "block_ok client b =
     (case b of (start, len, need) \<Rightarrow>
        (case client start len of Inl e \<Rightarrow> False | Inr buf \<Rightarrow> need \<le> length buf))"

definition KEYS :: "string list" where
  "KEYS =
     [''battery_power'', ''ac_power'', ''battery_voltage'', ''battery_current'',
      ''battery_design_capacity'', ''ac_voltage'', ''ac_frequency'', ''ac_current'', ''soc'',
      ''max_cell_voltage'', ''min_cell_voltage'', ''total_energy_in'', ''total_energy_out'',
      ''internal_temperature'', ''internal_mos1_temperature'', ''internal_mos2_temperature'',
      ''max_cell_temperature'', ''min_cell_temperature'', ''inverter_state'',
      ''backup_function'', ''force_mode'', ''charge_to_soc'', ''set_charge_power'',
      ''set_discharge_power'', ''user_work_mode'']"

text \<open>Two devices to run the loop against: one answers every request with registers of
  value \<open>0x0101\<close>, the other times out on the block at 35010.\<close>

definition default_settings :: settings where
  "default_settings = \<lparr>POLL_IP = ''192.168.1.100'', port = 502, slaveId = 1, interval = 5000\<rparr>"

definition steady_world :: world where
  "steady_world =
     \<lparr>isOpen = False, connectTCP = None,
      readHoldingRegisters = (\<lambda>start len. Inr (replicate (2 * len) 1)),
      listeners = (\<lambda>data. None),
      now = 1700000001234\<rparr>"

definition timeout_world :: world where
  "timeout_world =
     \<lparr>isOpen = False, connectTCP = None,
      readHoldingRegisters =
        (\<lambda>start len. if start = 35010 then Inl (TransportError ''Timed out'')
                      else Inr (replicate (2 * len) 1)),
      listeners = (\<lambda>data. None),
      now = 1700000001234\<rparr>"

section \<open>Splitting a command topic\<close>

lemma js_split_not_Nil: "js_split sep s \<noteq> []"
  by (induction s) (auto split: list.splits)

lemma js_split_no_sep: "sep \<notin> set s \<Longrightarrow> js_split sep s = [s]"
  by (induction s) auto

lemma js_split_append:
  "sep \<notin> set a \<Longrightarrow> js_split sep (a @ sep # rest) = a # js_split sep rest"
  by (induction a) (auto split: list.splits simp: js_split_not_Nil)

lemma command_parts:
  assumes "CHR ''/'' \<notin> set pre" and "CHR ''/'' \<notin> set ident" and "CHR ''/'' \<notin> set key"
  shows "js_split CHR ''/'' (pre @ ''/'' @ ident @ ''/set/'' @ key) = [pre, ident, ''set'', key]"
proof -
  have "js_split CHR ''/'' (''set/'' @ key) = [''set'', key]"
    using js_split_append [of "CHR ''/''" "''set''" key] assms(3)
    by (simp add: js_split_no_sep)
  then show ?thesis
    using assms by (simp add: js_split_append)
qed

section \<open>Commands for \<open>force_mode\<close>\<close>

lemma get_force_mode:
  "get_property CONTROLS ''force_mode'' =
     Own \<lparr>register = 42010, type = select,
          map_tbl = Some [(''0'', ''Stop''), (''1'', ''Charge''), (''2'', ''Discharge'')]\<rparr>"
  by (simp add: get_property_def CONTROLS_def)

lemma parseInt_1: "parseInt ''1'' None = num 1"
  by (simp add: parseInt_def isWhiteSpace_def isDigit_def digitValue_def digitsValue_def Let_def)

lemma force_mode_parts:
  assumes "CHR ''/'' \<notin> set pre" and "CHR ''/'' \<notin> set ident"
  shows "js_split CHR ''/'' (pre @ ''/'' @ ident @ ''/set/force_mode'') =
           [pre, ident, ''set'', ''force_mode'']"
  using command_parts [OF assms, of "''force_mode''"] by simp

text \<open>
  Claim C1. A command on the topic \<open>prefix/One/set/force_mode\<close> (any first two segments
  free of slashes) with the payload \<open>Charge\<close> is logged and resolved through the
  \<open>force_mode\<close> map to one call \<open>writeToDevice(42010, 1)\<close>; that call is the Poller's
  \<open>writeRegister(42010, 1)\<close>, which on a connected Poller writes value 1 to register
  42010 of the device.
\<close>

theorem handleCommand_force_mode_Charge:
  assumes "CHR ''/'' \<notin> set pre" and "CHR ''/'' \<notin> set ident"
  shows "handleCommand (pre @ ''/'' @ ident @ ''/set/force_mode'') ''Charge'' =
           [Logger Info [Txt ''Received command for force_mode: Charge''],
            WriteToDevice 42010 (num 1)]
         \<and> (\<exists>es. writeToDevice write p 42010 (num 1) =
                 snd (writeRegister write p 42010 (num 1)) @ [es])
         \<and> (connected p \<longrightarrow>
               ClientWriteRegister 42010 (num 1) \<in> set (writeToDevice write p 42010 (num 1)))"
proof -
  have key: "findKey [(''0'', ''Stop''), (''1'', ''Charge''), (''2'', ''Discharge'')] ''Charge'' = Some ''1''"
    by (simp add: findKey_def)
  have cmd: "handleCommand (pre @ ''/'' @ ident @ ''/set/force_mode'') ''Charge'' =
           [Logger Info [Txt ''Received command for force_mode: Charge''],
            WriteToDevice 42010 (num 1)]"
    unfolding handleCommand_def force_mode_parts [OF assms]
    by (simp add: get_force_mode key parseInt_1)
  have call: "\<exists>es. writeToDevice write p 42010 (num 1) =
                 snd (writeRegister write p 42010 (num 1)) @ [es]"
    by (simp add: writeToDevice_def split: prod.splits sum.splits)
  have dev: "connected p \<longrightarrow>
               ClientWriteRegister 42010 (num 1) \<in> set (writeToDevice write p 42010 (num 1))"
    by (simp add: writeToDevice_def writeRegister_def split: option.splits)
  from cmd call dev show ?thesis by blast
qed

theorem handleCommand_force_mode_Charge_witness:
  "handleCommand ''prefix/One/set/force_mode'' ''Charge'' =
     [Logger Info [Txt ''Received command for force_mode: Charge''],
      WriteToDevice 42010 (num 1)]
   \<and> ClientWriteRegister 42010 (num 1)
       \<in> set (writeToDevice (\<lambda>a v. None) \<lparr>connected = True\<rparr> 42010 (num 1))"
  using handleCommand_force_mode_Charge
          [of "''prefix''" "''One''" "\<lambda>a v. None" "\<lparr>connected = True\<rparr>"]
  by simp

text \<open>
  Claim C6. A command on the topic \<open>prefix/One/set/force_mode\<close> with the payload
  \<open>Bogus\<close>, which is no label of the \<open>force_mode\<close> map, calls no write: besides the line
  that reports the command, its only effect is one warning, whose text names the valid
  options \<open>Stop, Charge, Discharge\<close>.
\<close>

theorem handleCommand_force_mode_Bogus:
  assumes "CHR ''/'' \<notin> set pre" and "CHR ''/'' \<notin> set ident"
  shows "handleCommand (pre @ ''/'' @ ident @ ''/set/force_mode'') ''Bogus'' =
           [Logger Info [Txt ''Received command for force_mode: Bogus''],
            Logger Warn
              [Txt (''Invalid option '' @ [CHR 0x27] @ ''Bogus'' @ [CHR 0x27] @
                    '' for force_mode. Expected: Stop, Charge, Discharge'')]]"
proof -
  have key: "findKey [(''0'', ''Stop''), (''1'', ''Charge''), (''2'', ''Discharge'')] ''Bogus'' = None"
    by (simp add: findKey_def)
  show ?thesis
    unfolding handleCommand_def force_mode_parts [OF assms]
    by (simp add: get_force_mode key)
qed

theorem handleCommand_force_mode_Bogus_witness:
  "handleCommand ''prefix/One/set/force_mode'' ''Bogus'' =
     [Logger Info [Txt ''Received command for force_mode: Bogus''],
      Logger Warn
        [Txt (''Invalid option '' @ [CHR 0x27] @ ''Bogus'' @ [CHR 0x27] @
              '' for force_mode. Expected: Stop, Charge, Discharge'')]]"
  using handleCommand_force_mode_Bogus [of "''prefix''" "''One''"] by simp

section \<open>Commands for the numeric controls\<close>

lemma get_property_Own: "map_of table k = Some x \<Longrightarrow> get_property table k = Own x"
  by (simp add: get_property_def)

lemma parseInt_80: "parseInt ''80'' (Some 10) = num 80"
  by (simp add: parseInt_def isWhiteSpace_def isDigit_def digitValue_def digitsValue_def Let_def)

lemma parseInt_abc: "parseInt ''abc'' (Some 10) = NaN"
  by (simp add: parseInt_def isWhiteSpace_def isDigit_def digitValue_def digitsValue_def Let_def)

text \<open>\<open>parseInt\<close> is lenient: white space and a sign may lead, anything may follow the
  digits.\<close>

lemma parseInt_lenient: "parseInt ''  -12abc'' (Some 10) = num (- 12)"
  by (simp add: parseInt_def isWhiteSpace_def isDigit_def digitValue_def digitsValue_def Let_def)

lemma parseInt_10_NaN_iff:
  "isNaN (parseInt msg (Some 10)) \<longleftrightarrow>
     takeWhile (isDigit 10)
       (let S = dropWhile isWhiteSpace msg
        in if take 1 S = ''+'' \<or> take 1 S = ''-'' then drop 1 S else S) = []"
  by (simp add: parseInt_def isNaN_def num_def Let_def)

lemma isDigit_10_code: "isDigit 10 c \<Longrightarrow> 48 \<le> (of_char c :: nat) \<and> (of_char c :: nat) \<le> 57"
  by (auto simp: isDigit_def digitValue_def Let_def split: if_splits option.splits)

lemma isDigit_10_plain:
  assumes "isDigit 10 c"
  shows "\<not> isWhiteSpace c" and "c \<noteq> CHR ''+''" and "c \<noteq> CHR ''-''"
  using isDigit_10_code [OF assms] by (auto simp: isWhiteSpace_def)

lemma takeWhile_all: "list_all P xs \<Longrightarrow> takeWhile P xs = xs"
  by (induction xs) auto

lemma spec_base10_integer_parses:
  assumes "spec_base10_integer msg"
  shows "\<not> isNaN (parseInt msg (Some 10))"
proof (cases "take 1 msg = ''+'' \<or> take 1 msg = ''-''")
  case True
  then obtain c d where msg: "msg = c # d" and c: "c = CHR ''+'' \<or> c = CHR ''-''"
    by (cases msg) auto
  from assms True msg have d: "d \<noteq> []" "list_all (isDigit 10) d"
    by (auto simp: spec_base10_integer_def Let_def)
  from c have "\<not> isWhiteSpace c" by (auto simp: isWhiteSpace_def)
  with msg c d show ?thesis
    by (auto simp: parseInt_10_NaN_iff Let_def takeWhile_all)
next
  case False
  with assms have d: "msg \<noteq> []" "list_all (isDigit 10) msg"
    by (auto simp: spec_base10_integer_def Let_def)
  then obtain c cs where msg: "msg = c # cs" and c: "isDigit 10 c"
    by (cases msg) auto
  from isDigit_10_plain [OF c] msg d False show ?thesis
    by (simp add: parseInt_10_NaN_iff Let_def takeWhile_all)
qed

lemma writeToDevice_calls_writeRegister:
  "\<exists>e. writeToDevice write p reg v = snd (writeRegister write p reg v) @ [e]"
  by (simp add: writeToDevice_def split: prod.splits sum.splits)

lemma writeToDevice_connected:
  "connected p \<Longrightarrow> ClientWriteRegister reg v \<in> set (writeToDevice write p reg v)"
  by (simp add: writeToDevice_def writeRegister_def split: option.splits)

text \<open>
  Claim C7, as amended. For a command whose topic has four segments with \<open>set\<close> as the
  third and whose key is an entry of \<open>CONTROLS\<close> of type \<open>number\<close>, the payload is read
  by \<open>parseInt\<close> with radix 10: white space and a sign may lead, the longest run of
  decimal digits that follows is the number, and whatever comes after it is ignored.
  The result is \<open>NaN\<close> exactly when no digit follows the white space and the sign, which
  never happens for a payload that is a base-10 integer. If and only if the result is
  \<open>NaN\<close>, a warning is logged and \<open>writeToDevice\<close> is not called. Otherwise the only
  effects are the line that reports the command and one call of \<open>writeToDevice\<close> with
  the control's register; for a result of magnitude up to \<open>2 ^ 53\<close> the number handed
  over is the integer the digits denote, the call is the Poller's \<open>writeRegister\<close> with
  that register and integer, and on a connected Poller it reaches the client's
  \<open>writeRegister\<close>.
\<close>

theorem handleCommand_number:
  assumes parts: "js_split CHR ''/'' topic = [pre, ident, ''set'', key]"
    and ctl: "map_of CONTROLS key = Some control"
    and ty: "type control = number"
  shows "(isNaN (parseInt msg (Some 10)) \<longleftrightarrow>
            (\<exists>m. Logger Warn m \<in> set (handleCommand topic msg)) \<and>
            (\<forall>r v. WriteToDevice r v \<notin> set (handleCommand topic msg)))
         \<and> (isNaN (parseInt msg (Some 10)) \<longleftrightarrow>
              takeWhile (isDigit 10)
                (let S = dropWhile isWhiteSpace msg
                 in if take 1 S = ''+'' \<or> take 1 S = ''-'' then drop 1 S else S) = [])
         \<and> (spec_base10_integer msg \<longrightarrow> \<not> isNaN (parseInt msg (Some 10)))
         \<and> (\<not> isNaN (parseInt msg (Some 10)) \<longrightarrow>
              (\<exists>v. handleCommand topic msg =
                [Logger Info [Txt (''Received command for '' @ key @ '': '' @ msg)],
                 WriteToDevice (register control) v]))
         \<and> (\<forall>i. parseInt msg (Some 10) = num i \<and> \<bar>i\<bar> \<le> 2 ^ 53 \<longrightarrow>
              handleCommand topic msg =
                [Logger Info [Txt (''Received command for '' @ key @ '': '' @ msg)],
                 WriteToDevice (register control) (num i)]
              \<and> (\<exists>e. writeToDevice write p (register control) (num i) =
                      snd (writeRegister write p (register control) (num i)) @ [e])
              \<and> (connected p \<longrightarrow>
                    ClientWriteRegister (register control) (num i)
                      \<in> set (writeToDevice write p (register control) (num i))))"
proof -
  have cmd: "handleCommand topic msg =
      Logger Info [Txt (''Received command for '' @ key @ '': '' @ msg)] #
      (if isNaN (parseInt msg (Some 10))
       then [Logger Warn [Txt (''Invalid number '' @ [CHR 0x27] @ msg @ [CHR 0x27] @ '' for '' @ key)]]
       else [WriteToDevice (register control) (parseInt msg (Some 10))])"
    unfolding handleCommand_def parts
    by (simp add: get_property_Own [OF ctl] ty Let_def)
  have a: "isNaN (parseInt msg (Some 10)) \<longleftrightarrow>
            (\<exists>m. Logger Warn m \<in> set (handleCommand topic msg)) \<and>
            (\<forall>r v. WriteToDevice r v \<notin> set (handleCommand topic msg))"
    by (auto simp: cmd)
  note b = parseInt_10_NaN_iff [of msg]
  have c: "spec_base10_integer msg \<longrightarrow> \<not> isNaN (parseInt msg (Some 10))"
    using spec_base10_integer_parses by blast
  have d: "\<not> isNaN (parseInt msg (Some 10)) \<longrightarrow>
              (\<exists>v. handleCommand topic msg =
                [Logger Info [Txt (''Received command for '' @ key @ '': '' @ msg)],
                 WriteToDevice (register control) v])"
    by (simp add: cmd)
  have e: "\<forall>i. parseInt msg (Some 10) = num i \<and> \<bar>i\<bar> \<le> 2 ^ 53 \<longrightarrow>
              handleCommand topic msg =
                [Logger Info [Txt (''Received command for '' @ key @ '': '' @ msg)],
                 WriteToDevice (register control) (num i)]
              \<and> (\<exists>e. writeToDevice write p (register control) (num i) =
                      snd (writeRegister write p (register control) (num i)) @ [e])
              \<and> (connected p \<longrightarrow>
                    ClientWriteRegister (register control) (num i)
                      \<in> set (writeToDevice write p (register control) (num i)))"
    using writeToDevice_calls_writeRegister [of "write" p "register control"]
      writeToDevice_connected [of p "register control" _ "write"]
    by (auto simp: cmd isNaN_def num_def)
  from a b c d e show ?thesis by (intro conjI)
qed

lemma parseInt_12abc: "parseInt ''12abc'' (Some 10) = num 12"
  by (simp add: parseInt_def isWhiteSpace_def isDigit_def digitValue_def digitsValue_def Let_def)

lemma parseInt_3_9: "parseInt ''3.9'' (Some 10) = num 3"
  by (simp add: parseInt_def isWhiteSpace_def isDigit_def digitValue_def digitsValue_def Let_def)

lemma charge_to_soc_parts:
  "js_split CHR ''/'' ''marstek2mqtt/One/set/charge_to_soc'' =
     [''marstek2mqtt'', ''One'', ''set'', ''charge_to_soc'']"
  by simp

lemma get_charge_to_soc:
  "get_property CONTROLS ''charge_to_soc'' = Own \<lparr>register = 42011, type = number, map_tbl = None\<rparr>"
  by (simp add: get_property_def CONTROLS_def)

text \<open>
  The claim as stated fails: \<open>12abc\<close> and \<open>3.9\<close> are not base-10 integers, so parsing
  them as such fails, yet no warning is logged and the registers are written with 12
  and 3.
\<close>

theorem handleCommand_number_strict_counterexample:
  "\<not> spec_base10_integer ''12abc''
   \<and> handleCommand ''marstek2mqtt/One/set/charge_to_soc'' ''12abc'' =
       [Logger Info [Txt ''Received command for charge_to_soc: 12abc''],
        WriteToDevice 42011 (num 12)]
   \<and> \<not> spec_base10_integer ''3.9''
   \<and> handleCommand ''marstek2mqtt/One/set/charge_to_soc'' ''3.9'' =
       [Logger Info [Txt ''Received command for charge_to_soc: 3.9''],
        WriteToDevice 42011 (num 3)]"
proof -
  have a: "\<not> spec_base10_integer ''12abc''"
    by (simp add: spec_base10_integer_def isDigit_def digitValue_def Let_def)
  have b: "\<not> spec_base10_integer ''3.9''"
    by (simp add: spec_base10_integer_def isDigit_def digitValue_def Let_def)
  have c: "handleCommand ''marstek2mqtt/One/set/charge_to_soc'' ''12abc'' =
       [Logger Info [Txt ''Received command for charge_to_soc: 12abc''],
        WriteToDevice 42011 (num 12)]"
    unfolding handleCommand_def charge_to_soc_parts
    by (simp add: get_charge_to_soc parseInt_12abc isNaN_def num_def)
  have d: "handleCommand ''marstek2mqtt/One/set/charge_to_soc'' ''3.9'' =
       [Logger Info [Txt ''Received command for charge_to_soc: 3.9''],
        WriteToDevice 42011 (num 3)]"
    unfolding handleCommand_def charge_to_soc_parts
    by (simp add: get_charge_to_soc parseInt_3_9 isNaN_def num_def)
  from a c b d show ?thesis by (intro conjI)
qed

theorem handleCommand_number_witness:
  "handleCommand ''marstek2mqtt/One/set/charge_to_soc'' ''80'' =
     [Logger Info [Txt ''Received command for charge_to_soc: 80''], WriteToDevice 42011 (num 80)]
   \<and> ClientWriteRegister 42011 (num 80)
       \<in> set (writeToDevice (\<lambda>a v. None) \<lparr>connected = True\<rparr> 42011 (num 80))
   \<and> isNaN (parseInt ''abc'' (Some 10))
   \<and> (\<exists>m. Logger Warn m \<in> set (handleCommand ''marstek2mqtt/One/set/charge_to_soc'' ''abc''))
   \<and> (\<forall>r v. WriteToDevice r v \<notin> set (handleCommand ''marstek2mqtt/One/set/charge_to_soc'' ''abc''))"
proof -
  have ctl: "map_of CONTROLS ''charge_to_soc'' = Some \<lparr>register = 42011, type = number, map_tbl = None\<rparr>"
    by (simp add: CONTROLS_def)
  have ty: "type \<lparr>register = 42011, type = number, map_tbl = None\<rparr> = number" by simp
  have nan: "isNaN (parseInt ''abc'' (Some 10))" by (simp add: parseInt_abc isNaN_def)
  have ok: "parseInt ''80'' (Some 10) = num 80 \<and> \<bar>80 :: int\<bar> \<le> 2 ^ 53"
    by (simp add: parseInt_80)
  note all = handleCommand_number [OF charge_to_soc_parts ctl ty]
  note good = all [of "''80''" "\<lambda>a v. None" "\<lparr>connected = True\<rparr>",
      THEN conjunct2, THEN conjunct2, THEN conjunct2, THEN conjunct2, rule_format, OF ok]
  note bad = all [of "''abc''" "\<lambda>a v. None" "\<lparr>connected = True\<rparr>", THEN conjunct1, THEN iffD1, OF nan]
  from good have a: "handleCommand ''marstek2mqtt/One/set/charge_to_soc'' ''80'' =
     [Logger Info [Txt ''Received command for charge_to_soc: 80''], WriteToDevice 42011 (num 80)]"
    by simp
  from good have b: "ClientWriteRegister 42011 (num 80)
       \<in> set (writeToDevice (\<lambda>a v. None) \<lparr>connected = True\<rparr> 42011 (num 80))"
    by simp
  show ?thesis
    by (rule conjI [OF a conjI [OF b conjI [OF nan bad]]])
qed

section \<open>Writes while disconnected\<close>

text \<open>
  Claim C3. For every address and every number to write, \<open>writeRegister\<close> on a Poller
  that is not connected fails at once with the not-connected error and calls nothing: no
  Logger line and no \<open>writeRegister\<close> of the Modbus client. Seen from the bridge, the
  only effect of \<open>writeToDevice\<close> is then the line that reports the failure.
\<close>

theorem writeRegister_not_connected:
  assumes "\<not> connected p"
  shows "writeRegister write p address v = (Inl NotConnected, [])
         \<and> writeToDevice write p address v =
             [Logger Error [Txt ''Failed to write to register '', Val (num (int address)), Err NotConnected]]"
  using assms by (simp add: writeRegister_def writeToDevice_def)

theorem writeRegister_not_connected_witness:
  "writeRegister (\<lambda>a v. None) \<lparr>connected = False\<rparr> 42010 (num 1) = (Inl NotConnected, [])"
  using writeRegister_not_connected [of "\<lparr>connected = False\<rparr>" "\<lambda>a v. None" 42010 "num 1"]
  by simp

section \<open>The subscription\<close>

text \<open>The handler drops every topic that has not exactly four segments, whatever the
  subscription delivers.\<close>

lemma handleCommand_other_depth:
  "length (js_split CHR ''/'' topic) \<noteq> 4 \<Longrightarrow> handleCommand topic msg = []"
  by (simp add: handleCommand_def Let_def)

text \<open>
  Claim C9, as amended. On connecting to the broker the bridge makes exactly one
  subscription, to \<open><prefix>/<deviceId>/set/#\<close>: the wildcard after the \<open>set\<close> segment
  is the multi-level one.
\<close>

theorem on_connect_subscribes:
  "\<exists>l1 l2 l3. on_connect this err =
     [Logger Info l1,
      Subscribe (TOPIC_PREFIX @ ''/'' @ device_identifier this @ ''/set/#''),
      Logger l2 l3]"
  by (simp add: on_connect_def commandTopic_def split: option.splits)

text \<open>The claim as stated, with the single-level wildcard \<open>+\<close>, fails for the default
  device identifier \<open>One\<close>: no such subscription is made.\<close>

theorem on_connect_single_level_counterexample:
  "Subscribe (TOPIC_PREFIX @ ''/'' @ ''One'' @ ''/set/+'') \<notin> set (on_connect (new_MqttClient None) None)"
  by (simp add: on_connect_def commandTopic_def new_MqttClient_def TOPIC_PREFIX_def)

section \<open>Codes and labels\<close>

declare digits.simps [simp del]













section \<open>The poll cycle\<close>

lemma andThen_Inr_iff: "andThen m f = Inr y \<longleftrightarrow> (\<exists>x. m = Inr x \<and> f x = Inr y)"
  by (cases m) (simp_all add: andThen_def)

lemma readBlock_Inr_iff: "readBlock client s l = Inr buf \<longleftrightarrow> client s l = Inr buf"
  by (cases "client s l") (simp_all add: readBlock_def andThen_def)

lemma readUInt16BE_Inr: "readUInt16BE buf off = Inr v \<Longrightarrow> off + 2 \<le> length buf"
  by (simp add: readUInt16BE_def split: if_splits)

lemma readInt16BE_Inr: "readInt16BE buf off = Inr v \<Longrightarrow> off + 2 \<le> length buf"
  by (auto simp: readInt16BE_def andThen_Inr_iff dest: readUInt16BE_Inr)

lemma readUInt32BE_Inr: "readUInt32BE buf off = Inr v \<Longrightarrow> off + 4 \<le> length buf"
  by (simp add: readUInt32BE_def split: if_splits)

lemma readInt32BE_Inr: "readInt32BE buf off = Inr v \<Longrightarrow> off + 4 \<le> length buf"
  by (auto simp: readInt32BE_def andThen_Inr_iff dest: readUInt32BE_Inr)

lemma poll_keys: "poll client = Inr data \<Longrightarrow> map fst data = KEYS"
  by (auto simp: poll_def andThen_Inr_iff KEYS_def)

lemma poll_temperatures:
  assumes "poll client = Inr data"
  shows "\<exists>buf raw. client 35010 2 = Inr buf \<and> readInt16BE buf 0 = Inr raw \<and>
           map_of data ''max_cell_temperature'' = Some (times raw (1 / 10)) \<and>
           map_of data ''min_cell_temperature'' = Some (times raw (1 / 10))"
  using assms by (auto simp: poll_def andThen_Inr_iff readBlock_Inr_iff)


lemma poll_blocks_ok:
  assumes "poll client = Inr data"
  shows "\<forall>b\<in>set READS. block_ok client b"
  using assms
  by (auto simp: poll_def andThen_Inr_iff readBlock_Inr_iff READS_def block_ok_def
           dest!: readUInt16BE_Inr readInt16BE_Inr readUInt32BE_Inr readInt32BE_Inr)

lemma block_okD:
  assumes "block_ok client (start, len, need)"
  obtains buf where "client start len = Inr buf" and "need \<le> length buf"
  using assms by (auto simp: block_ok_def split: sum.splits)

lemma read16_ok: "off + 2 \<le> length buf \<Longrightarrow> \<exists>v. readUInt16BE buf off = Inr v"
  by (simp add: readUInt16BE_def)

lemma readS16_ok: "off + 2 \<le> length buf \<Longrightarrow> \<exists>v. readInt16BE buf off = Inr v"
  by (simp add: readInt16BE_def readUInt16BE_def andThen_def)

lemma read32_ok: "off + 4 \<le> length buf \<Longrightarrow> \<exists>v. readUInt32BE buf off = Inr v"
  by (simp add: readUInt32BE_def)

lemma readS32_ok: "off + 4 \<le> length buf \<Longrightarrow> \<exists>v. readInt32BE buf off = Inr v"
  by (simp add: readInt32BE_def readUInt32BE_def andThen_def)

lemma blocks_ok_poll:
  assumes ok: "\<forall>b\<in>set READS. block_ok client b"
  shows "\<exists>data. poll client = Inr data"
proof -
  from ok obtain power where power: "client 30001 6 = Inr power" "12 \<le> length power"
    by (auto simp: READS_def elim: block_okD)
  from ok obtain bat where bat: "client 30100 2 = Inr bat" "4 \<le> length bat"
    by (auto simp: READS_def elim: block_okD)
  from ok obtain cap where cap: "client 32105 1 = Inr cap" "2 \<le> length cap"
    by (auto simp: READS_def elim: block_okD)
  from ok obtain ac where ac: "client 32200 5 = Inr ac" "10 \<le> length ac"
    by (auto simp: READS_def elim: block_okD)
  from ok obtain soc where soc: "client 37004 5 = Inr soc" "10 \<le> length soc"
    by (auto simp: READS_def elim: block_okD)
  from ok obtain nrg where nrg: "client 33000 4 = Inr nrg" "8 \<le> length nrg"
    by (auto simp: READS_def elim: block_okD)
  from ok obtain temp where temp: "client 35000 3 = Inr temp" "6 \<le> length temp"
    by (auto simp: READS_def elim: block_okD)
  from ok obtain temp2 where temp2: "client 35010 2 = Inr temp2" "2 \<le> length temp2"
    by (auto simp: READS_def elim: block_okD)
  from ok obtain inv where inv: "client 35100 1 = Inr inv" "2 \<le> length inv"
    by (auto simp: READS_def elim: block_okD)
  from ok obtain bkp where bkp: "client 41200 1 = Inr bkp" "2 \<le> length bkp"
    by (auto simp: READS_def elim: block_okD)
  from ok obtain ctrl1 where ctrl1: "client 42010 2 = Inr ctrl1" "4 \<le> length ctrl1"
    by (auto simp: READS_def elim: block_okD)
  from ok obtain ctrl2 where ctrl2: "client 42020 2 = Inr ctrl2" "4 \<le> length ctrl2"
    by (auto simp: READS_def elim: block_okD)
  from ok obtain uwm where uwm: "client 43000 1 = Inr uwm" "2 \<le> length uwm"
    by (auto simp: READS_def elim: block_okD)
  show ?thesis
    using power bat cap ac soc nrg temp temp2 inv bkp ctrl1 ctrl2 uwm
    by (simp add: poll_def readBlock_def andThen_def readInt16BE_def readUInt16BE_def
          readInt32BE_def readUInt32BE_def)
qed


section \<open>Scheduling the next tick\<close>

lemma interval_of_nonzero: "interval_of n \<noteq> 0"
  by (cases n) (simp_all add: interval_of_def)

lemma delay_Number:
  "b \<noteq> 0 \<Longrightarrow> js_minus b (js_rem a b) = Number (b - (a - b * of_int (trunc (a / b))))"
  by (simp add: js_minus_def js_rem_def)

lemma rem_bounds:
  fixes a b :: rat
  assumes "0 < b" and "0 \<le> a"
  shows "0 \<le> a - b * of_int (trunc (a / b))" and "a - b * of_int (trunc (a / b)) < b"
proof -
  from assms have t: "trunc (a / b) = \<lfloor>a / b\<rfloor>"
    by (simp add: trunc_def not_less [symmetric] divide_less_0_iff)
  have "of_int \<lfloor>a / b\<rfloor> \<le> a / b" by (rule of_int_floor_le)
  with assms(1) have lo: "b * of_int \<lfloor>a / b\<rfloor> \<le> a"
    by (simp add: le_divide_eq mult.commute)
  have "a / b < of_int \<lfloor>a / b\<rfloor> + 1" by (rule floor_correct [THEN conjunct2, simplified])
  with assms(1) have hi: "a < b * (of_int \<lfloor>a / b\<rfloor> + 1)"
    by (simp add: divide_less_eq mult.commute)
  from lo show "0 \<le> a - b * of_int (trunc (a / b))" by (simp add: t)
  from hi show "a - b * of_int (trunc (a / b)) < b" by (simp add: t algebra_simps)
qed

lemma rem_int:
  fixes a i :: int
  assumes "0 < i" and "0 \<le> a"
  shows "(of_int a :: rat) - of_int i * of_int (trunc (of_int a / of_int i)) = of_int (a mod i)"
proof -
  from assms have "trunc (of_int a / of_int i) = a div i"
    by (simp add: trunc_def floor_divide_of_int_eq not_less [symmetric] divide_less_0_iff)
  moreover have "a - i * (a div i) = a mod i"
    by (simp add: minus_mult_div_eq_mod)
  ultimately show ?thesis
    by (metis of_int_diff of_int_mult)
qed

text \<open>
  Claim C8. The last effect of every tick of the polling loop is the timer for the next
  tick, and its delay is \<open>interval - (Date.now() % interval)\<close> with the clock read when
  the tick is over. The time the timer aims at, \<open>now + delay\<close>, is an integer multiple of
  the interval; for a positive interval the delay lies in \<open>(0, interval]\<close>, and for a
  positive whole number of milliseconds it is \<open>interval - now mod interval\<close>. So the
  duration of a tick does not add up from cycle to cycle.
\<close>

theorem pollingLoop_delay:
  assumes "interval cfg = interval_of n"
  shows "\<exists>es d. snd (pollingLoop cfg w p) = es @ [SetTimeout (Number d)]
           \<and> Number d = js_minus (interval cfg) (js_rem (of_int (now w)) (interval cfg))
           \<and> (\<exists>k::int. of_int (now w) + d = of_int k * interval cfg)
           \<and> (0 < interval cfg \<and> 0 \<le> now w \<longrightarrow> 0 < d \<and> d \<le> interval cfg)
           \<and> (\<forall>i. 0 < i \<and> interval cfg = of_int i \<and> 0 \<le> now w \<longrightarrow>
                 d = of_int (i - now w mod i))"
proof -
  let ?b = "interval cfg" and ?a = "of_int (now w) :: rat"
  let ?d = "?b - (?a - ?b * of_int (trunc (?a / ?b)))"
  from assms have nz: "?b \<noteq> 0" by (simp add: interval_of_nonzero)
  have d: "js_minus ?b (js_rem ?a ?b) = Number ?d"
    using nz by (rule delay_Number)
  have shape: "\<exists>es. snd (pollingLoop cfg w p) = es @ [SetTimeout (Number ?d)]"
    by (simp add: pollingLoop_def Let_def d split: prod.splits)
  have "?a + ?d = of_int (trunc (?a / ?b) + 1) * ?b"
    by (simp add: algebra_simps)
  then have aligned: "\<exists>k::int. ?a + ?d = of_int k * ?b" ..
  have bounds: "0 < ?b \<and> 0 \<le> now w \<longrightarrow> 0 < ?d \<and> ?d \<le> ?b"
    using rem_bounds [of ?b ?a] by auto
  have ints: "\<forall>i. 0 < i \<and> ?b = of_int i \<and> 0 \<le> now w \<longrightarrow> ?d = of_int (i - now w mod i)"
    using rem_int by auto
  from shape d aligned bounds ints show ?thesis by auto
qed


section \<open>Republishing the discovery metadata\<close>

lemma publish_entry_not_retained:
  "publish_entry base entry = Inr es \<Longrightarrow> Publish t m True \<notin> set es"
  by (auto simp: publish_entry_def translate_def andThen_Inr_iff Let_def
           split: property.splits option.splits if_splits)

lemma publish_entries_not_retained:
  "Publish t m True \<notin> set (fst (publish_entries base data))"
proof (induction data)
  case Nil
  show ?case by simp
next
  case (Cons entry data)
  then show ?case
    by (auto split: sum.splits prod.splits dest: publish_entry_not_retained)
qed

lemma autoconf_not_Nil: "autoconf P ident \<noteq> []"
  by (simp add: autoconf_def Let_def)

text \<open>
  Claim C5. When a snapshot is delivered, the discovery metadata is published if and
  only if strictly more than four hours (14400000 ms) lie between the clock and
  \<open>autoconfTimestamp\<close>; it is then published before the telemetry and
  \<open>autoconfTimestamp\<close> becomes the current time. Otherwise nothing is published by
  \<open>ensureAutoconf\<close> and the state is unchanged. The telemetry itself has no retained
  publish, so a snapshot delivered one second after a publish of the metadata has
  telemetry effects only.
\<close>

theorem ensureAutoconf_republish:
  "(4 * 60 * 60 * 1000 < now1 - autoconfTimestamp this \<longrightarrow>
      ensureAutoconf P now1 now2 this ident =
        (this\<lparr>autoconfTimestamp := now2\<rparr>, autoconf P ident))
   \<and> (now1 - autoconfTimestamp this \<le> 4 * 60 * 60 * 1000 \<longrightarrow>
        ensureAutoconf P now1 now2 this ident = (this, []))
   \<and> autoconf P ident \<noteq> []
   \<and> handleData P now1 now2 this data =
       (fst (ensureAutoconf P now1 now2 this (device_identifier this)),
        snd (ensureAutoconf P now1 now2 this (device_identifier this)) @
        fst (publish_entries (TOPIC_PREFIX @ ''/'' @ device_identifier this) data),
        snd (publish_entries (TOPIC_PREFIX @ ''/'' @ device_identifier this) data))
   \<and> (\<forall>t m. Publish t m True \<notin> set (fst (publish_entries base data)))
   \<and> handleData P (now2 + 1000) now3 (this\<lparr>autoconfTimestamp := now2\<rparr>) data =
       (this\<lparr>autoconfTimestamp := now2\<rparr>,
        fst (publish_entries (TOPIC_PREFIX @ ''/'' @ device_identifier this) data),
        snd (publish_entries (TOPIC_PREFIX @ ''/'' @ device_identifier this) data))"
  by (simp add: ensureAutoconf_def handleData_def autoconf_not_Nil publish_entries_not_retained
        split: prod.splits)

theorem ensureAutoconf_republish_witness:
  "4 * 60 * 60 * 1000 < 1700000000000 - autoconfTimestamp (new_MqttClient None)
   \<and> ensureAutoconf None 1700000000000 1700000000005 (new_MqttClient None) ''One'' =
       (\<lparr>device_identifier = ''One'', autoconfTimestamp = 1700000000005\<rparr>, autoconf None ''One'')
   \<and> 1700000001005 - 1700000000005 \<le> (4 * 60 * 60 * 1000 :: int)
   \<and> ensureAutoconf None 1700000001005 1700000001006
        \<lparr>device_identifier = ''One'', autoconfTimestamp = 1700000000005\<rparr> ''One'' =
       (\<lparr>device_identifier = ''One'', autoconfTimestamp = 1700000000005\<rparr>, [])"
  using ensureAutoconf_republish [of 1700000000000 "new_MqttClient None" None 1700000000005 "''One''"]
    ensureAutoconf_republish [of 1700000001005
      "\<lparr>device_identifier = ''One'', autoconfTimestamp = 1700000000005\<rparr>" None 1700000001006 "''One''"]
  by (simp add: new_MqttClient_def)

section \<open>One tick of the polling loop\<close>

lemma tick_emit:
  "EmitData d \<in> set (snd (pollingLoop cfg w p)) \<Longrightarrow> poll (readHoldingRegisters w) = Inr d"
  by (auto simp: pollingLoop_def connect_def Let_def
           split: if_splits option.splits sum.splits prod.splits)

lemma tick_fail:
  "poll (readHoldingRegisters w) = Inl e \<Longrightarrow> \<not> connected (fst (pollingLoop cfg w p))"
  by (auto simp: pollingLoop_def connect_def Let_def
           split: if_splits option.splits sum.splits prod.splits)

lemma tick_run:
  "connected p \<Longrightarrow> poll (readHoldingRegisters w) = Inr d \<Longrightarrow>
     EmitData d \<in> set (snd (pollingLoop cfg w p))"
  by (simp add: pollingLoop_def Let_def split: option.splits)

text \<open>A listener that throws out of the emit ends the cycle like a failed read: the
  snapshot has been emitted, the error is logged and the Poller is left disconnected.\<close>

lemma tick_listener_throws:
  assumes "connected p" and "poll (readHoldingRegisters w) = Inr d" and "listeners w d = Some e"
  shows "\<not> connected (fst (pollingLoop cfg w p))"
    and "Logger Warn [Txt ''Error during poll cycle'', Err e] \<in> set (snd (pollingLoop cfg w p))"
  using assms by (simp_all add: pollingLoop_def Let_def)

text \<open>
  Claim C2. In every tick of the polling loop: if a block of the read sequence is not
  answered, or is answered with a buffer too short for its decodes, then no snapshot
  is emitted and the Poller is left disconnected; and a snapshot that is emitted is the
  result of a poll cycle in which every block was read and decoded, and has all
  twenty-five fields.
\<close>

theorem pollingLoop_all_or_nothing:
  "((\<exists>b\<in>set READS. \<not> block_ok (readHoldingRegisters w) b) \<longrightarrow>
      (\<forall>d. EmitData d \<notin> set (snd (pollingLoop cfg w p))) \<and>
      \<not> connected (fst (pollingLoop cfg w p)))
   \<and> (\<forall>d. EmitData d \<in> set (snd (pollingLoop cfg w p)) \<longrightarrow>
        poll (readHoldingRegisters w) = Inr d \<and> map fst d = KEYS \<and>
        (\<forall>b\<in>set READS. block_ok (readHoldingRegisters w) b))"
proof -
  have fail: "(\<forall>d. EmitData d \<notin> set (snd (pollingLoop cfg w p))) \<and>
      \<not> connected (fst (pollingLoop cfg w p))"
    if bad: "\<exists>b\<in>set READS. \<not> block_ok (readHoldingRegisters w) b"
  proof -
    from bad have no: "\<And>d. poll (readHoldingRegisters w) \<noteq> Inr d"
      using poll_blocks_ok by blast
    then obtain e where e: "poll (readHoldingRegisters w) = Inl e"
      by (cases "poll (readHoldingRegisters w)") auto
    from no have "\<forall>d. EmitData d \<notin> set (snd (pollingLoop cfg w p))"
      using tick_emit by blast
    with tick_fail [OF e] show ?thesis by simp
  qed
  have emit: "poll (readHoldingRegisters w) = Inr d \<and> map fst d = KEYS \<and>
        (\<forall>b\<in>set READS. block_ok (readHoldingRegisters w) b)"
    if "EmitData d \<in> set (snd (pollingLoop cfg w p))" for d
  proof -
    from that have "poll (readHoldingRegisters w) = Inr d" by (rule tick_emit)
    then show ?thesis using poll_keys poll_blocks_ok by blast
  qed
  from fail emit show ?thesis by blast
qed

text \<open>
  Claim C10. In every snapshot the polling loop emits, \<open>max_cell_temperature\<close> and
  \<open>min_cell_temperature\<close> are the same number: both are the signed 16-bit value at
  byte offset 0 of the block read at 35010, times 0.1.
\<close>

theorem temperatures_equal:
  assumes "EmitData data \<in> set (snd (pollingLoop cfg w p))"
  shows "\<exists>buf raw. readHoldingRegisters w 35010 2 = Inr buf \<and> readInt16BE buf 0 = Inr raw \<and>
           map_of data ''max_cell_temperature'' = Some (times raw (1 / 10)) \<and>
           map_of data ''min_cell_temperature'' = Some (times raw (1 / 10))"
  using tick_emit [OF assms] by (rule poll_temperatures)


lemma steady_blocks: "\<forall>b\<in>set READS. block_ok (readHoldingRegisters steady_world) b"
  by (simp add: READS_def block_ok_def steady_world_def)

lemma steady_emits:
  "\<exists>d. EmitData d \<in> set (snd (pollingLoop default_settings steady_world \<lparr>connected = True\<rparr>))"
proof -
  from blocks_ok_poll [OF steady_blocks]
  obtain d where "poll (readHoldingRegisters steady_world) = Inr d" ..
  then have "EmitData d \<in> set (snd (pollingLoop default_settings steady_world \<lparr>connected = True\<rparr>))"
    by (simp add: tick_run)
  then show ?thesis ..
qed

theorem pollingLoop_all_or_nothing_witness:
  "(35010, 2, 2) \<in> set READS
   \<and> \<not> block_ok (readHoldingRegisters timeout_world) (35010, 2, 2)
   \<and> (\<forall>d. EmitData d \<notin> set (snd (pollingLoop default_settings timeout_world \<lparr>connected = True\<rparr>)))
   \<and> \<not> connected (fst (pollingLoop default_settings timeout_world \<lparr>connected = True\<rparr>))
   \<and> (\<exists>d. EmitData d \<in> set (snd (pollingLoop default_settings steady_world \<lparr>connected = True\<rparr>))
          \<and> map fst d = KEYS)"
proof -
  have m: "(35010, 2, 2) \<in> set READS" by (simp add: READS_def)
  have b: "\<not> block_ok (readHoldingRegisters timeout_world) (35010, 2, 2)"
    by (simp add: block_ok_def timeout_world_def)
  from m b have "\<exists>b\<in>set READS. \<not> block_ok (readHoldingRegisters timeout_world) b" by blast
  with pollingLoop_all_or_nothing [of timeout_world default_settings "\<lparr>connected = True\<rparr>"]
  have f: "(\<forall>d. EmitData d \<notin> set (snd (pollingLoop default_settings timeout_world \<lparr>connected = True\<rparr>)))
     \<and> \<not> connected (fst (pollingLoop default_settings timeout_world \<lparr>connected = True\<rparr>))"
    by blast
  from steady_emits obtain d
    where d: "EmitData d \<in> set (snd (pollingLoop default_settings steady_world \<lparr>connected = True\<rparr>))" ..
  with pollingLoop_all_or_nothing [of steady_world default_settings "\<lparr>connected = True\<rparr>"]
  have "map fst d = KEYS" by blast
  with d have "\<exists>d. EmitData d \<in> set (snd (pollingLoop default_settings steady_world \<lparr>connected = True\<rparr>))
          \<and> map fst d = KEYS" by blast
  with m b f show ?thesis by blast
qed

theorem temperatures_equal_witness:
  "\<exists>data x. EmitData data \<in> set (snd (pollingLoop default_settings steady_world \<lparr>connected = True\<rparr>))
     \<and> map_of data ''max_cell_temperature'' = Some x
     \<and> map_of data ''min_cell_temperature'' = Some x"
proof -
  from steady_emits obtain d
    where d: "EmitData d \<in> set (snd (pollingLoop default_settings steady_world \<lparr>connected = True\<rparr>))" ..
  from temperatures_equal [OF d] d show ?thesis by blast
qed

theorem pollingLoop_delay_witness:
  "interval default_settings = interval_of (Number 5000)
   \<and> (\<exists>es. snd (pollingLoop default_settings steady_world \<lparr>connected = True\<rparr>) =
             es @ [SetTimeout (Number 3766)])"
proof -
  have i: "interval default_settings = interval_of (Number 5000)"
    by (simp add: default_settings_def interval_of_def)
  from pollingLoop_delay [OF i, of steady_world "\<lparr>connected = True\<rparr>"]
  obtain es d where es: "snd (pollingLoop default_settings steady_world \<lparr>connected = True\<rparr>) =
        es @ [SetTimeout (Number d)]"
    and d: "\<forall>i. 0 < i \<and> interval default_settings = of_int i \<and> 0 \<le> now steady_world \<longrightarrow>
                 d = of_int (i - now steady_world mod i)"
    by blast
  from d [THEN spec, of 5000] have "d = 3766"
    by (simp add: default_settings_def steady_world_def)
  with es i show ?thesis by blast
qed

end
